theory Spec2Isabelle
  imports Main "HOL-Library.Word"
begin

section \<open>Kernel interface used by vsock_tap_bridge.c\<close>

text \<open>
  The module is one C file. Everything it calls in the kernel (allocation, the network
  device API, sockets, kthreads, logging) is outside the file, so each call is recorded
  as an event of a trace, and each result the kernel hands back is an input of the model.
  Pointers that the code only tests against NULL are options; the two thread pointers are
  64-bit words, because the code tests them with \<open>IS_ERR\<close> and reads an errno out of
  them with \<open>PTR_ERR\<close>. C \<open>int\<close> values (return codes, byte counts) are integers; the
  code does no arithmetic on them that could leave the range of \<open>int\<close>.
\<close>

type_synonym byte = "8 word"
type_synonym ulong = "64 word"
type_synonym task_ptr = "64 word"

text \<open>Errno values of the kernel headers (asm-generic/errno-base.h).\<close>

definition EINTR :: int where "EINTR = 4"
definition EAGAIN :: int where "EAGAIN = 11"
definition ENOMEM :: int where "ENOMEM = 12"
definition ENODEV :: int where "ENODEV = 19"
definition EPIPE :: int where "EPIPE = 32"
definition ECONNRESET :: int where "ECONNRESET = 104"

text \<open>
  The error-pointer macros of linux/err.h: a pointer is an error when, read as an
  unsigned long, it lies in the last 4095 values; \<open>PTR_ERR\<close> is the cast to long.
  Assigning that long to the \<open>int ret\<close> keeps the low 32 bits.
\<close>

definition IS_ERR :: "task_ptr \<Rightarrow> bool" where
  "IS_ERR p = (p \<ge> - 4095)"

definition PTR_ERR :: "task_ptr \<Rightarrow> int" where
  "PTR_ERR p = sint p"

definition long_to_int :: "int \<Rightarrow> int" where
  "long_to_int v = sint (word_of_int v :: 32 word)"

datatype netdev_tx = NETDEV_TX_OK | NETDEV_TX_BUSY

text \<open>
  Modelled from the spec: \<open>struct net_device_stats\<close> is declared in the kernel headers,
  not in this repository. The record holds the packet and byte counters the code updates
  and the two drop counters the specification speaks of. The fields are unsigned long,
  64 bits wide on the 64-bit kernels vsock runs on.
\<close>

record net_device_stats =
  rx_packets :: ulong
  rx_bytes :: ulong
  tx_packets :: ulong
  tx_bytes :: ulong
  rx_dropped :: ulong
  tx_dropped :: ulong

record net_device =
  stats :: net_device_stats

record sk_buff =
  skb_data :: "byte list"

definition skb_len :: "sk_buff \<Rightarrow> nat" where
  "skb_len skb = length (skb_data skb)"

record socket =
  connected :: bool

section \<open>The bridge structure\<close>

record vsock_tap_bridge =
  tap_dev :: "net_device option"
  vsock_sock :: "socket option"
  rx_thread :: task_ptr
  tx_thread :: task_ptr
  rx_queue :: "sk_buff list"
  tx_queue :: "sk_buff list"
  running :: bool

text \<open>What \<open>kzalloc\<close> returns: every pointer NULL, both queues empty after
  \<open>skb_queue_head_init\<close>, the flag false.\<close>

definition kzalloc_bridge :: vsock_tap_bridge where
  "kzalloc_bridge =
     \<lparr>tap_dev = None, vsock_sock = None, rx_thread = 0, tx_thread = 0,
      rx_queue = [], tx_queue = [], running = False\<rparr>"

definition zero_stats :: net_device_stats where
  "zero_stats =
     \<lparr>rx_packets = 0, rx_bytes = 0, tx_packets = 0, tx_bytes = 0,
      rx_dropped = 0, tx_dropped = 0\<rparr>"

section \<open>Events\<close>

datatype queue_id = RxQueue | TxQueue

datatype worker = RxWorker | TxWorker

datatype log_msg =
    Initializing
  | AllocTapFailed
  | RegisterTapFailed int
  | CreateSocketFailed int
  | ConnectFailed int
  | StartRxFailed int
  | StartTxFailed int
  | Initialized
  | CleaningUp
  | CleanupComplete
  | RxStarted
  | RxStopped
  | RecvmsgError int
  | AllocSkbFailed
  | TxStarted
  | TxStopped
  | SendmsgError int

text \<open>
  One constructor per kernel call of the file, with the arguments and results that
  matter, and \<open>StoreRunning\<close> for an assignment to \<open>bridge->running\<close>.
\<close>

datatype event =
    PrInfo log_msg
  | PrErr log_msg
  | Kzalloc bool
  | SkbQueueHeadInit queue_id
  | StoreRunning bool
  | AllocNetdev bool
  | RegisterNetdev int
  | SockCreateKern int
  | KernelConnect int
  | KthreadRun worker task_ptr
  | RtnlLock
  | RtnlUnlock
  | DevOpen int
  | DevClose
  | KthreadStop task_ptr
  | SockRelease
  | UnregisterNetdev
  | FreeNetdev
  | SkbQueuePurge queue_id "sk_buff list"
  | Kfree
  | SkbQueueTail queue_id sk_buff
  | WakeUpProcess task_ptr
  | DevKfreeSkb sk_buff
  | KernelRecvmsg int
  | DevAllocSkb int bool
  | NetifRx sk_buff
  | SkbDequeue queue_id "sk_buff option"
  | ScheduleTimeout
  | KernelSendmsg sk_buff int

section \<open>tap_xmit\<close>

text \<open>
  The transmit function of the TAP device. The global \<open>bridge\<close> is passed in and
  returned; the device the stack passes by pointer is returned as well, so that a write
  through it would show.
\<close>

definition tap_xmit ::
  "sk_buff \<Rightarrow> net_device \<Rightarrow> vsock_tap_bridge option \<Rightarrow>
   netdev_tx \<times> net_device \<times> vsock_tap_bridge option \<times> event list" where
  "tap_xmit skb dev bridge =
     (case bridge of
        None \<Rightarrow> (NETDEV_TX_OK, dev, bridge, [DevKfreeSkb skb])
      | Some br \<Rightarrow>
          if \<not> running br then (NETDEV_TX_OK, dev, bridge, [DevKfreeSkb skb])
          else (NETDEV_TX_OK, dev, Some (br\<lparr>tx_queue := tx_queue br @ [skb]\<rparr>),
                [SkbQueueTail TxQueue skb, WakeUpProcess (tx_thread br)]))"

section \<open>vsock_tap_bridge_init\<close>

text \<open>
  The results of the fallible kernel calls of module initialisation, in call order.
  \<open>dev_open\<close>, which brings the interface up, returns a status like the others.
\<close>

record init_env =
  kzalloc_ok :: bool
  alloc_netdev_ok :: bool
  register_netdev_ret :: int
  sock_create_kern_ret :: int
  kernel_connect_ret :: int
  kthread_run_rx :: task_ptr
  kthread_run_tx :: task_ptr
  dev_open_ret :: int

text \<open>The labels at the end of the function; each falls through to the next.\<close>

definition err_free_bridge :: "event list" where
  "err_free_bridge = [Kfree]"

definition err_free_netdev :: "event list" where
  "err_free_netdev = FreeNetdev # err_free_bridge"

definition err_unregister_netdev :: "event list" where
  "err_unregister_netdev = UnregisterNetdev # err_free_netdev"

definition err_close_socket :: "event list" where
  "err_close_socket = SockRelease # err_unregister_netdev"

definition err_stop_rx :: "task_ptr \<Rightarrow> event list" where
  "err_stop_rx rx = KthreadStop rx # err_close_socket"

text \<open>
  The function returns the status, the new value of the global \<open>bridge\<close> and the
  trace. The old value of the global is overwritten by the result of \<open>kzalloc\<close> before
  it is read. Every path through a label ends in \<open>bridge = NULL\<close>. The status of
  \<open>dev_open\<close> is not assigned to anything: it shows in the trace only.
\<close>

definition vsock_tap_bridge_init ::
  "init_env \<Rightarrow> vsock_tap_bridge option \<Rightarrow> int \<times> vsock_tap_bridge option \<times> event list" where
  "vsock_tap_bridge_init env bridge =
     (if \<not> kzalloc_ok env then (- ENOMEM, None, [PrInfo Initializing, Kzalloc False])
      else
        let b0 = kzalloc_bridge\<lparr>running := True\<rparr>;
            t0 = [PrInfo Initializing, Kzalloc True, SkbQueueHeadInit RxQueue,
                  SkbQueueHeadInit TxQueue, StoreRunning True]
        in
        if \<not> alloc_netdev_ok env then
          (- ENOMEM, None, t0 @ [AllocNetdev False, PrErr AllocTapFailed] @ err_free_bridge)
        else
          let b1 = b0\<lparr>tap_dev := Some \<lparr>stats = zero_stats\<rparr>\<rparr>;
              ret = register_netdev_ret env;
              t1 = t0 @ [AllocNetdev True, RegisterNetdev ret]
          in
          if ret \<noteq> 0 then
            (ret, None, t1 @ [PrErr (RegisterTapFailed ret)] @ err_free_netdev)
          else
            let ret = sock_create_kern_ret env;
                t2 = t1 @ [SockCreateKern ret]
            in
            if ret \<noteq> 0 then
              (ret, None, t2 @ [PrErr (CreateSocketFailed ret)] @ err_unregister_netdev)
            else
              let b2 = b1\<lparr>vsock_sock := Some \<lparr>connected = False\<rparr>\<rparr>;
                  ret = kernel_connect_ret env;
                  t3 = t2 @ [KernelConnect ret]
              in
              if ret \<noteq> 0 then
                (ret, None, t3 @ [PrErr (ConnectFailed ret)] @ err_close_socket)
              else
                let b3 = b2\<lparr>vsock_sock := Some \<lparr>connected = True\<rparr>,
                            rx_thread := kthread_run_rx env\<rparr>;
                    t4 = t3 @ [KthreadRun RxWorker (kthread_run_rx env)]
                in
                if IS_ERR (rx_thread b3) then
                  let ret = long_to_int (PTR_ERR (rx_thread b3))
                  in (ret, None, t4 @ [PrErr (StartRxFailed ret)] @ err_close_socket)
                else
                  let b4 = b3\<lparr>tx_thread := kthread_run_tx env\<rparr>;
                      t5 = t4 @ [KthreadRun TxWorker (kthread_run_tx env)]
                  in
                  if IS_ERR (tx_thread b4) then
                    let ret = long_to_int (PTR_ERR (tx_thread b4))
                    in (ret, None,
                        t5 @ [PrErr (StartTxFailed ret)] @ err_stop_rx (rx_thread b4))
                  else
                    (0, Some b4,
                     t5 @ [RtnlLock, DevOpen (dev_open_ret env), RtnlUnlock,
                           PrInfo Initialized]))"

section \<open>vsock_tap_bridge_exit\<close>

text \<open>
  Module cleanup. The structure is freed at the end, so only the new value of the global
  and the trace are returned. A thread pointer is tested against NULL only.
\<close>

definition vsock_tap_bridge_exit ::
  "vsock_tap_bridge option \<Rightarrow> vsock_tap_bridge option \<times> event list" where
  "vsock_tap_bridge_exit bridge =
     (case bridge of
        None \<Rightarrow> (None, [PrInfo CleaningUp])
      | Some br \<Rightarrow>
          (None,
           [PrInfo CleaningUp, StoreRunning False]
           @ (if tx_thread br \<noteq> 0 then [KthreadStop (tx_thread br)] else [])
           @ (if rx_thread br \<noteq> 0 then [KthreadStop (rx_thread br)] else [])
           @ (case vsock_sock br of None \<Rightarrow> [] | Some s \<Rightarrow> [SockRelease])
           @ (case tap_dev br of
                None \<Rightarrow> []
              | Some d \<Rightarrow> [RtnlLock, DevClose, RtnlUnlock, UnregisterNetdev, FreeNetdev])
           @ [SkbQueuePurge RxQueue (rx_queue br), SkbQueuePurge TxQueue (tx_queue br),
              Kfree, PrInfo CleanupComplete]))"

section \<open>The worker threads\<close>

text \<open>
  A worker loops until \<open>kthread_should_stop\<close> or a cleared flag or a \<open>break\<close>, which
  may be never. The loop therefore runs over a script: one entry per evaluation of the
  loop condition, holding what the kernel answers during that iteration. A script that
  ends while the worker is still looping gives \<open>StillLooping\<close>. A dereference of a NULL
  \<open>tap_dev\<close> is the other way a worker does not return.
\<close>

datatype fault = StillLooping | NullDeref

datatype ctl = Continue | Break

record rx_step =
  rx_should_stop :: bool
  recv_len :: int
  recv_buf :: "byte list"
  alloc_ok :: bool

text \<open>One pass through the body of the loop of \<open>vsock_rx_thread\<close>.\<close>

definition rx_body ::
  "rx_step \<Rightarrow> vsock_tap_bridge \<Rightarrow> fault + (ctl \<times> vsock_tap_bridge \<times> event list)" where
  "rx_body s br =
     (let len = recv_len s in
      if len \<le> 0 then
        (if len = - EAGAIN then Inr (Continue, br, [KernelRecvmsg len])
         else Inr (Break, br, [KernelRecvmsg len, PrErr (RecvmsgError len)]))
      else if \<not> alloc_ok s then
        Inr (Continue, br,
             [KernelRecvmsg len, DevAllocSkb (len + 2) False, PrErr AllocSkbFailed])
      else
        (case tap_dev br of
           None \<Rightarrow> Inl NullDeref
         | Some d \<Rightarrow>
             let skb = \<lparr>skb_data = take (nat len) (recv_buf s)\<rparr>;
                 st = stats d;
                 st' = st\<lparr>rx_packets := rx_packets st + 1,
                          rx_bytes := rx_bytes st + word_of_int len\<rparr>
             in Inr (Continue, br\<lparr>tap_dev := Some (d\<lparr>stats := st'\<rparr>)\<rparr>,
                     [KernelRecvmsg len, DevAllocSkb (len + 2) True, NetifRx skb])))"

fun rx_loop ::
  "rx_step list \<Rightarrow> vsock_tap_bridge \<Rightarrow> fault + (vsock_tap_bridge \<times> event list)" where
  "rx_loop [] br = Inl StillLooping"
| "rx_loop (s # ss) br =
     (if \<not> rx_should_stop s \<and> running br then
        (case rx_body s br of
           Inl f \<Rightarrow> Inl f
         | Inr (Break, br', ev) \<Rightarrow> Inr (br', ev)
         | Inr (Continue, br', ev) \<Rightarrow>
             (case rx_loop ss br' of
                Inl f \<Rightarrow> Inl f
              | Inr (br'', tr) \<Rightarrow> Inr (br'', ev @ tr)))
      else Inr (br, []))"

definition vsock_rx_thread ::
  "rx_step list \<Rightarrow> vsock_tap_bridge \<Rightarrow> fault + (int \<times> vsock_tap_bridge \<times> event list)" where
  "vsock_rx_thread script br =
     (case rx_loop script br of
        Inl f \<Rightarrow> Inl f
      | Inr (br', tr) \<Rightarrow> Inr (0, br', [PrInfo RxStarted] @ tr @ [PrInfo RxStopped]))"

record tx_step =
  tx_should_stop :: bool
  sendmsg_ret :: int

text \<open>One pass through the body of the loop of \<open>vsock_tx_thread\<close>.\<close>

definition tx_body ::
  "tx_step \<Rightarrow> vsock_tap_bridge \<Rightarrow> fault + (ctl \<times> vsock_tap_bridge \<times> event list)" where
  "tx_body s br =
     (case tx_queue br of
        [] \<Rightarrow> Inr (Continue, br, [SkbDequeue TxQueue None, ScheduleTimeout])
      | skb # rest \<Rightarrow>
          let br1 = br\<lparr>tx_queue := rest\<rparr>;
              len = sendmsg_ret s
          in
          if len < 0 then
            Inr (Continue, br1,
                 [SkbDequeue TxQueue (Some skb), KernelSendmsg skb len,
                  PrErr (SendmsgError len), DevKfreeSkb skb])
          else
            (case tap_dev br1 of
               None \<Rightarrow> Inl NullDeref
             | Some d \<Rightarrow>
                 let st = stats d;
                     st' = st\<lparr>tx_packets := tx_packets st + 1,
                              tx_bytes := tx_bytes st + word_of_int len\<rparr>
                 in Inr (Continue, br1\<lparr>tap_dev := Some (d\<lparr>stats := st'\<rparr>)\<rparr>,
                         [SkbDequeue TxQueue (Some skb), KernelSendmsg skb len,
                          DevKfreeSkb skb])))"

fun tx_loop ::
  "tx_step list \<Rightarrow> vsock_tap_bridge \<Rightarrow> fault + (vsock_tap_bridge \<times> event list)" where
  "tx_loop [] br = Inl StillLooping"
| "tx_loop (s # ss) br =
     (if \<not> tx_should_stop s \<and> running br then
        (case tx_body s br of
           Inl f \<Rightarrow> Inl f
         | Inr (Break, br', ev) \<Rightarrow> Inr (br', ev)
         | Inr (Continue, br', ev) \<Rightarrow>
             (case tx_loop ss br' of
                Inl f \<Rightarrow> Inl f
              | Inr (br'', tr) \<Rightarrow> Inr (br'', ev @ tr)))
      else Inr (br, []))"

definition vsock_tx_thread ::
  "tx_step list \<Rightarrow> vsock_tap_bridge \<Rightarrow> fault + (int \<times> vsock_tap_bridge \<times> event list)" where
  "vsock_tx_thread script br =
     (case tx_loop script br of
        Inl f \<Rightarrow> Inl f
      | Inr (br', tr) \<Rightarrow> Inr (0, br', [PrInfo TxStarted] @ tr @ [PrInfo TxStopped]))"

section \<open>Resources held along a trace\<close>

text \<open>
  What a call acquires when it succeeds, and what a call gives back. A thread is named
  by the pointer \<open>kthread_run\<close> returned.
\<close>

datatype resource = BridgeMem | NetdevMem | NetdevReg | VsockSocket | Thread task_ptr

fun acquires :: "event \<Rightarrow> resource option" where
  "acquires (Kzalloc ok) = (if ok then Some BridgeMem else None)"
| "acquires (AllocNetdev ok) = (if ok then Some NetdevMem else None)"
| "acquires (RegisterNetdev r) = (if r = 0 then Some NetdevReg else None)"
| "acquires (SockCreateKern r) = (if r = 0 then Some VsockSocket else None)"
| "acquires (KthreadRun w p) = (if IS_ERR p then None else Some (Thread p))"
| "acquires _ = None"

fun releases :: "event \<Rightarrow> resource option" where
  "releases Kfree = Some BridgeMem"
| "releases FreeNetdev = Some NetdevMem"
| "releases UnregisterNetdev = Some NetdevReg"
| "releases SockRelease = Some VsockSocket"
| "releases (KthreadStop p) = Some (Thread p)"
| "releases _ = None"

definition acquired :: "event list \<Rightarrow> resource list" where
  "acquired tr = List.map_filter acquires tr"

definition released :: "event list \<Rightarrow> resource list" where
  "released tr = List.map_filter releases tr"

text \<open>
  The seven startup calls whose result the function tests, and all eight startup steps:
  the eighth is the activation of the interface by \<open>dev_open\<close>.
\<close>

definition checked_steps_ok :: "init_env \<Rightarrow> bool" where
  "checked_steps_ok env =
     (kzalloc_ok env \<and> alloc_netdev_ok env \<and> register_netdev_ret env = 0 \<and>
      sock_create_kern_ret env = 0 \<and> kernel_connect_ret env = 0 \<and>
      \<not> IS_ERR (kthread_run_rx env) \<and> \<not> IS_ERR (kthread_run_tx env))"

definition init_steps_ok :: "init_env \<Rightarrow> bool" where
  "init_steps_ok env = (checked_steps_ok env \<and> dev_open_ret env = 0)"

section \<open>Reading a trace\<close>

text \<open>An assignment to \<open>bridge->running\<close>, of either value.\<close>

fun is_store_running :: "event \<Rightarrow> bool" where
  "is_store_running (StoreRunning b) = True"
| "is_store_running _ = False"

text \<open>
  Every store of true into the flag comes after a \<open>kernel_connect\<close> that returned 0.
  The first argument says whether such a call has been seen already.
\<close>

fun connect_before_store :: "bool \<Rightarrow> event list \<Rightarrow> bool" where
  "connect_before_store c [] = True"
| "connect_before_store c (e # es) =
     (if e = StoreRunning True then c \<and> connect_before_store c es
      else connect_before_store (c \<or> e = KernelConnect 0) es)"

text \<open>
  The stage of the shutdown sequence a call belongs to: clearing the flag, stopping the
  workers, closing the transport, unregistering and freeing the interface, purging the
  queues, releasing the bridge structure. Logging and locking belong to no stage.
\<close>

fun shutdown_stage :: "event \<Rightarrow> nat option" where
  "shutdown_stage (StoreRunning b) = (if b then None else Some 0)"
| "shutdown_stage (KthreadStop p) = Some 1"
| "shutdown_stage SockRelease = Some 2"
| "shutdown_stage DevClose = Some 3"
| "shutdown_stage UnregisterNetdev = Some 3"
| "shutdown_stage FreeNetdev = Some 3"
| "shutdown_stage (SkbQueuePurge q fs) = Some 4"
| "shutdown_stage Kfree = Some 5"
| "shutdown_stage _ = None"

definition stages :: "event list \<Rightarrow> nat list" where
  "stages tr = List.map_filter shutdown_stage tr"

text \<open>\<open>precedes a b tr\<close>: the event \<open>a\<close> occurs in \<open>tr\<close> before the first \<open>b\<close>.\<close>

definition precedes :: "event \<Rightarrow> event \<Rightarrow> event list \<Rightarrow> bool" where
  "precedes a b tr = (a \<in> set (takeWhile (\<lambda>e. e \<noteq> b) tr))"

text \<open>
  The calls of this file through which a thread acts on the lifecycle or on another
  thread: a store to the flag, \<open>kthread_stop\<close> and \<open>wake_up_process\<close>. A worker that
  returns hands back its exit code as well, which \<open>kthread_stop\<close> would collect.
\<close>

fun signals_lifecycle :: "event \<Rightarrow> bool" where
  "signals_lifecycle (StoreRunning b) = True"
| "signals_lifecycle (KthreadStop p) = True"
| "signals_lifecycle (WakeUpProcess p) = True"
| "signals_lifecycle _ = False"

section \<open>Concrete states used in the examples\<close>

definition frame0 :: sk_buff where
  "frame0 = \<lparr>skb_data = [0, 1, 2, 3]\<rparr>"

definition frame1 :: sk_buff where
  "frame1 = \<lparr>skb_data = [9, 8]\<rparr>"

definition dev0 :: net_device where
  "dev0 = \<lparr>stats = zero_stats\<rparr>"

definition bridge_up :: vsock_tap_bridge where
  "bridge_up =
     \<lparr>tap_dev = Some dev0, vsock_sock = Some \<lparr>connected = True\<rparr>,
      rx_thread = 4096, tx_thread = 8192,
      rx_queue = [], tx_queue = [], running = True\<rparr>"

definition env_ok :: init_env where
  "env_ok =
     \<lparr>kzalloc_ok = True, alloc_netdev_ok = True, register_netdev_ret = 0,
      sock_create_kern_ret = 0, kernel_connect_ret = 0,
      kthread_run_rx = 4096, kthread_run_tx = 8192, dev_open_ret = 0\<rparr>"

text \<open>Every call succeeds until \<open>dev_open\<close> reports that the device is not there.\<close>

definition env_open_fails :: init_env where
  "env_open_fails = env_ok\<lparr>dev_open_ret := - 19\<rparr>"

text \<open>
  Script entries for the workers: what \<open>kthread_should_stop\<close> says and what the
  kernel calls of one iteration return.
\<close>

definition rx_again :: rx_step where
  "rx_again = \<lparr>rx_should_stop = False, recv_len = - 11, recv_buf = [], alloc_ok = True\<rparr>"

definition rx_interrupted :: rx_step where
  "rx_interrupted = \<lparr>rx_should_stop = False, recv_len = - 4, recv_buf = [], alloc_ok = True\<rparr>"

definition rx_zero_read :: rx_step where
  "rx_zero_read = \<lparr>rx_should_stop = False, recv_len = 0, recv_buf = [], alloc_ok = True\<rparr>"

definition rx_reset :: rx_step where
  "rx_reset = \<lparr>rx_should_stop = False, recv_len = - 104, recv_buf = [], alloc_ok = True\<rparr>"

definition rx_frame :: rx_step where
  "rx_frame =
     \<lparr>rx_should_stop = False, recv_len = 4, recv_buf = [0, 1, 2, 3], alloc_ok = True\<rparr>"

definition rx_no_memory :: rx_step where
  "rx_no_memory =
     \<lparr>rx_should_stop = False, recv_len = 4, recv_buf = [0, 1, 2, 3], alloc_ok = False\<rparr>"

definition rx_stop :: rx_step where
  "rx_stop = \<lparr>rx_should_stop = True, recv_len = 0, recv_buf = [], alloc_ok = True\<rparr>"

definition tx_broken_pipe :: tx_step where
  "tx_broken_pipe = \<lparr>tx_should_stop = False, sendmsg_ret = - 32\<rparr>"

definition tx_short_write :: tx_step where
  "tx_short_write = \<lparr>tx_should_stop = False, sendmsg_ret = 1\<rparr>"

definition tx_idle :: tx_step where
  "tx_idle = \<lparr>tx_should_stop = False, sendmsg_ret = 0\<rparr>"

definition tx_stop :: tx_step where
  "tx_stop = \<lparr>tx_should_stop = True, sendmsg_ret = 0\<rparr>"

text \<open>\<open>bridge_up\<close> after one frame of four bytes has been received.\<close>

definition bridge_after_one :: vsock_tap_bridge where
  "bridge_after_one =
     bridge_up\<lparr>tap_dev := Some \<lparr>stats = zero_stats\<lparr>rx_packets := 1, rx_bytes := 4\<rparr>\<rparr>\<rparr>"

section \<open>Properties of tap_xmit\<close>

lemmas rx_steps =
  rx_again_def rx_interrupted_def rx_zero_read_def rx_reset_def rx_frame_def
  rx_no_memory_def rx_stop_def

lemmas tx_steps = tx_broken_pipe_def tx_short_write_def tx_idle_def tx_stop_def

lemmas example_states = bridge_up_def bridge_after_one_def dev0_def zero_stats_def
  frame0_def frame1_def

lemma tap_xmit_not_running:
  "bridge = None \<or> (\<exists>br. bridge = Some br \<and> \<not> running br) \<Longrightarrow>
   tap_xmit skb dev bridge = (NETDEV_TX_OK, dev, bridge, [DevKfreeSkb skb])"
  by (auto simp: tap_xmit_def)

lemma tap_xmit_running:
  "running br \<Longrightarrow>
   tap_xmit skb dev (Some br) =
     (NETDEV_TX_OK, dev, Some (br\<lparr>tx_queue := tx_queue br @ [skb]\<rparr>),
      [SkbQueueTail TxQueue skb, WakeUpProcess (tx_thread br)])"
  by (simp add: tap_xmit_def)

text \<open>
  C9. tap_xmit returns NETDEV_TX_OK for every frame, device and bridge state. When the
  bridge is absent or not running, the only call is the release of the frame and nothing
  else changes. Otherwise the only calls are the append to the TX queue and the wake-up
  of the TX thread: no call that waits, and no other status.
\<close>

theorem tap_xmit_always_ok:
  "fst (tap_xmit skb dev bridge) = NETDEV_TX_OK \<and>
   (bridge = None \<or> (\<exists>br. bridge = Some br \<and> \<not> running br) \<longrightarrow>
      tap_xmit skb dev bridge = (NETDEV_TX_OK, dev, bridge, [DevKfreeSkb skb])) \<and>
   (\<forall>br. bridge = Some br \<and> running br \<longrightarrow>
      tap_xmit skb dev bridge =
        (NETDEV_TX_OK, dev, Some (br\<lparr>tx_queue := tx_queue br @ [skb]\<rparr>),
         [SkbQueueTail TxQueue skb, WakeUpProcess (tx_thread br)]))"
proof (intro conjI allI impI)
  show "fst (tap_xmit skb dev bridge) = NETDEV_TX_OK"
    by (simp add: tap_xmit_def split: option.split)
next
  assume "bridge = None \<or> (\<exists>br. bridge = Some br \<and> \<not> running br)"
  then show "tap_xmit skb dev bridge = (NETDEV_TX_OK, dev, bridge, [DevKfreeSkb skb])"
    by (rule tap_xmit_not_running)
next
  fix br
  assume "bridge = Some br \<and> running br"
  then show "tap_xmit skb dev bridge =
        (NETDEV_TX_OK, dev, Some (br\<lparr>tx_queue := tx_queue br @ [skb]\<rparr>),
         [SkbQueueTail TxQueue skb, WakeUpProcess (tx_thread br)])"
    by (simp add: tap_xmit_running)
qed

theorem tap_xmit_always_ok_witness:
  "running bridge_up \<and>
   tap_xmit frame0 dev0 (Some bridge_up) =
     (NETDEV_TX_OK, dev0, Some (bridge_up\<lparr>tx_queue := [frame0]\<rparr>),
      [SkbQueueTail TxQueue frame0, WakeUpProcess 8192]) \<and>
   tap_xmit frame0 dev0 None = (NETDEV_TX_OK, dev0, None, [DevKfreeSkb frame0])"
  using tap_xmit_always_ok [of frame0 dev0 "Some bridge_up"]
    tap_xmit_always_ok [of frame0 dev0 None]
  by (simp add: bridge_up_def)




section \<open>Properties of vsock_tap_bridge_init\<close>

lemma mod_shift:
  assumes "(m::int) \<le> x" and "x < 2 * m"
  shows "x mod m = x - m"
proof -
  have "x mod m = (x - m) mod m"
    by simp
  also have "\<dots> = x - m"
    using assms by (intro mod_pos_pos_trivial) simp_all
  finally show ?thesis .
qed

lemma IS_ERR_PTR_ERR_range:
  assumes "IS_ERR p"
  shows "- 4095 \<le> PTR_ERR p \<and> PTR_ERR p < 0"
proof -
  have a: "2 ^ 64 - 4095 \<le> uint p"
    using assms by (simp add: IS_ERR_def word_le_def)
  have b: "uint p < 2 ^ 64"
    using uint_bounded [of p] by simp
  have "sint p = (uint p + 2 ^ 63) mod 2 ^ 64 - 2 ^ 63"
    using int_word_sint [of "uint p", where 'a = 64] by simp
  moreover have "(uint p + 2 ^ 63) mod 2 ^ 64 = uint p + 2 ^ 63 - 2 ^ 64"
    using a b by (intro mod_shift) simp_all
  ultimately have "sint p = uint p - 2 ^ 64"
    by simp
  with a b show ?thesis
    by (simp add: PTR_ERR_def)
qed

lemma long_to_int_small:
  assumes "- 4095 \<le> v" and "v < 0"
  shows "long_to_int v = v"
proof -
  have "sint (word_of_int v :: 32 word) = (v + 2 ^ 31) mod 2 ^ 32 - 2 ^ 31"
    using int_word_sint [of v, where 'a = 32] by simp
  moreover have "(v + 2 ^ 31) mod 2 ^ 32 = v + 2 ^ 31"
    using assms by (intro mod_pos_pos_trivial) simp_all
  ultimately show ?thesis
    by (simp add: long_to_int_def)
qed

lemma IS_ERR_ret_nonzero: "IS_ERR p \<Longrightarrow> long_to_int (PTR_ERR p) \<noteq> 0"
  using IS_ERR_PTR_ERR_range [of p] long_to_int_small [of "PTR_ERR p"] by simp

lemmas unwind_defs =
  err_free_bridge_def err_free_netdev_def err_unregister_netdev_def
  err_close_socket_def err_stop_rx_def

text \<open>The eight ways through the function, one per failing call and the success.\<close>

lemma init_kzalloc_fails:
  "\<not> kzalloc_ok env \<Longrightarrow>
   vsock_tap_bridge_init env g = (- ENOMEM, None, [PrInfo Initializing, Kzalloc False])"
  by (simp add: vsock_tap_bridge_init_def)

lemma init_alloc_netdev_fails:
  "kzalloc_ok env \<Longrightarrow> \<not> alloc_netdev_ok env \<Longrightarrow>
   vsock_tap_bridge_init env g =
     (- ENOMEM, None,
      [PrInfo Initializing, Kzalloc True, SkbQueueHeadInit RxQueue,
       SkbQueueHeadInit TxQueue, StoreRunning True, AllocNetdev False,
       PrErr AllocTapFailed, Kfree])"
  by (simp add: vsock_tap_bridge_init_def unwind_defs Let_def)

lemma init_register_fails:
  "kzalloc_ok env \<Longrightarrow> alloc_netdev_ok env \<Longrightarrow> register_netdev_ret env \<noteq> 0 \<Longrightarrow>
   vsock_tap_bridge_init env g =
     (register_netdev_ret env, None,
      [PrInfo Initializing, Kzalloc True, SkbQueueHeadInit RxQueue,
       SkbQueueHeadInit TxQueue, StoreRunning True, AllocNetdev True,
       RegisterNetdev (register_netdev_ret env),
       PrErr (RegisterTapFailed (register_netdev_ret env)), FreeNetdev, Kfree])"
  by (simp add: vsock_tap_bridge_init_def unwind_defs Let_def)

lemma init_sock_create_fails:
  "kzalloc_ok env \<Longrightarrow> alloc_netdev_ok env \<Longrightarrow> register_netdev_ret env = 0 \<Longrightarrow>
   sock_create_kern_ret env \<noteq> 0 \<Longrightarrow>
   vsock_tap_bridge_init env g =
     (sock_create_kern_ret env, None,
      [PrInfo Initializing, Kzalloc True, SkbQueueHeadInit RxQueue,
       SkbQueueHeadInit TxQueue, StoreRunning True, AllocNetdev True,
       RegisterNetdev 0, SockCreateKern (sock_create_kern_ret env),
       PrErr (CreateSocketFailed (sock_create_kern_ret env)),
       UnregisterNetdev, FreeNetdev, Kfree])"
  by (simp add: vsock_tap_bridge_init_def unwind_defs Let_def)

lemma init_connect_fails:
  "kzalloc_ok env \<Longrightarrow> alloc_netdev_ok env \<Longrightarrow> register_netdev_ret env = 0 \<Longrightarrow>
   sock_create_kern_ret env = 0 \<Longrightarrow> kernel_connect_ret env \<noteq> 0 \<Longrightarrow>
   vsock_tap_bridge_init env g =
     (kernel_connect_ret env, None,
      [PrInfo Initializing, Kzalloc True, SkbQueueHeadInit RxQueue,
       SkbQueueHeadInit TxQueue, StoreRunning True, AllocNetdev True,
       RegisterNetdev 0, SockCreateKern 0, KernelConnect (kernel_connect_ret env),
       PrErr (ConnectFailed (kernel_connect_ret env)),
       SockRelease, UnregisterNetdev, FreeNetdev, Kfree])"
  by (simp add: vsock_tap_bridge_init_def unwind_defs Let_def)

lemma init_rx_thread_fails:
  "kzalloc_ok env \<Longrightarrow> alloc_netdev_ok env \<Longrightarrow> register_netdev_ret env = 0 \<Longrightarrow>
   sock_create_kern_ret env = 0 \<Longrightarrow> kernel_connect_ret env = 0 \<Longrightarrow>
   IS_ERR (kthread_run_rx env) \<Longrightarrow>
   vsock_tap_bridge_init env g =
     (long_to_int (PTR_ERR (kthread_run_rx env)), None,
      [PrInfo Initializing, Kzalloc True, SkbQueueHeadInit RxQueue,
       SkbQueueHeadInit TxQueue, StoreRunning True, AllocNetdev True,
       RegisterNetdev 0, SockCreateKern 0, KernelConnect 0,
       KthreadRun RxWorker (kthread_run_rx env),
       PrErr (StartRxFailed (long_to_int (PTR_ERR (kthread_run_rx env)))),
       SockRelease, UnregisterNetdev, FreeNetdev, Kfree])"
  by (simp add: vsock_tap_bridge_init_def unwind_defs Let_def)

lemma init_tx_thread_fails:
  "kzalloc_ok env \<Longrightarrow> alloc_netdev_ok env \<Longrightarrow> register_netdev_ret env = 0 \<Longrightarrow>
   sock_create_kern_ret env = 0 \<Longrightarrow> kernel_connect_ret env = 0 \<Longrightarrow>
   \<not> IS_ERR (kthread_run_rx env) \<Longrightarrow> IS_ERR (kthread_run_tx env) \<Longrightarrow>
   vsock_tap_bridge_init env g =
     (long_to_int (PTR_ERR (kthread_run_tx env)), None,
      [PrInfo Initializing, Kzalloc True, SkbQueueHeadInit RxQueue,
       SkbQueueHeadInit TxQueue, StoreRunning True, AllocNetdev True,
       RegisterNetdev 0, SockCreateKern 0, KernelConnect 0,
       KthreadRun RxWorker (kthread_run_rx env),
       KthreadRun TxWorker (kthread_run_tx env),
       PrErr (StartTxFailed (long_to_int (PTR_ERR (kthread_run_tx env)))),
       KthreadStop (kthread_run_rx env), SockRelease, UnregisterNetdev, FreeNetdev,
       Kfree])"
  by (simp add: vsock_tap_bridge_init_def unwind_defs Let_def)

lemma init_succeeds:
  "checked_steps_ok env \<Longrightarrow>
   vsock_tap_bridge_init env g =
     (0,
      Some \<lparr>tap_dev = Some \<lparr>stats = zero_stats\<rparr>,
            vsock_sock = Some \<lparr>connected = True\<rparr>,
            rx_thread = kthread_run_rx env, tx_thread = kthread_run_tx env,
            rx_queue = [], tx_queue = [], running = True\<rparr>,
      [PrInfo Initializing, Kzalloc True, SkbQueueHeadInit RxQueue,
       SkbQueueHeadInit TxQueue, StoreRunning True, AllocNetdev True,
       RegisterNetdev 0, SockCreateKern 0, KernelConnect 0,
       KthreadRun RxWorker (kthread_run_rx env),
       KthreadRun TxWorker (kthread_run_tx env),
       RtnlLock, DevOpen (dev_open_ret env), RtnlUnlock, PrInfo Initialized])"
  by (simp add: vsock_tap_bridge_init_def checked_steps_ok_def kzalloc_bridge_def)

lemma init_cases:
  obtains
    (kzalloc) "\<not> kzalloc_ok env"
  | (alloc_netdev) "kzalloc_ok env" "\<not> alloc_netdev_ok env"
  | (register) "kzalloc_ok env" "alloc_netdev_ok env" "register_netdev_ret env \<noteq> 0"
  | (sock_create) "kzalloc_ok env" "alloc_netdev_ok env" "register_netdev_ret env = 0"
      "sock_create_kern_ret env \<noteq> 0"
  | (connect) "kzalloc_ok env" "alloc_netdev_ok env" "register_netdev_ret env = 0"
      "sock_create_kern_ret env = 0" "kernel_connect_ret env \<noteq> 0"
  | (rx_thread) "kzalloc_ok env" "alloc_netdev_ok env" "register_netdev_ret env = 0"
      "sock_create_kern_ret env = 0" "kernel_connect_ret env = 0"
      "IS_ERR (kthread_run_rx env)"
  | (tx_thread) "kzalloc_ok env" "alloc_netdev_ok env" "register_netdev_ret env = 0"
      "sock_create_kern_ret env = 0" "kernel_connect_ret env = 0"
      "\<not> IS_ERR (kthread_run_rx env)" "IS_ERR (kthread_run_tx env)"
  | (ok) "checked_steps_ok env"
  unfolding checked_steps_ok_def by blast

text \<open>
  The seven calls whose result is tested: the status is non-zero exactly when one of them
  failed, and then the global \<open>bridge\<close> is NULL again and the resources given back are
  the resources acquired, each once, in the reverse order of acquisition.
\<close>

lemma init_checked_failure_unwinds:
  "(case vsock_tap_bridge_init env g of
      (ret, g', tr) \<Rightarrow>
        (ret \<noteq> 0 \<longleftrightarrow> \<not> checked_steps_ok env) \<and>
        (ret \<noteq> 0 \<longrightarrow> g' = None \<and> distinct (acquired tr) \<and>
                     released tr = rev (acquired tr)))"
proof (cases env rule: init_cases)
  case kzalloc
  then show ?thesis
    by (simp add: init_kzalloc_fails checked_steps_ok_def ENOMEM_def acquired_def
        released_def List.map_filter_simps)
next
  case alloc_netdev
  then show ?thesis
    by (simp add: init_alloc_netdev_fails checked_steps_ok_def ENOMEM_def acquired_def
        released_def List.map_filter_simps)
next
  case register
  then show ?thesis
    by (simp add: init_register_fails checked_steps_ok_def acquired_def
        released_def List.map_filter_simps)
next
  case sock_create
  then show ?thesis
    by (simp add: init_sock_create_fails checked_steps_ok_def acquired_def
        released_def List.map_filter_simps)
next
  case connect
  then show ?thesis
    by (simp add: init_connect_fails checked_steps_ok_def acquired_def
        released_def List.map_filter_simps)
next
  case rx_thread
  then show ?thesis
    by (simp add: init_rx_thread_fails checked_steps_ok_def acquired_def
        released_def List.map_filter_simps IS_ERR_ret_nonzero)
next
  case tx_thread
  then show ?thesis
    by (simp add: init_tx_thread_fails checked_steps_ok_def acquired_def
        released_def List.map_filter_simps IS_ERR_ret_nonzero)
next
  case ok
  then show ?thesis
    by (simp add: init_succeeds)
qed

lemma init_dev_open_status_discarded:
  "checked_steps_ok env \<Longrightarrow>
   fst (vsock_tap_bridge_init env g) = 0 \<and>
   fst (snd (vsock_tap_bridge_init env g)) \<noteq> None \<and>
   DevOpen (dev_open_ret env) \<in> set (snd (snd (vsock_tap_bridge_init env g))) \<and>
   released (snd (snd (vsock_tap_bridge_init env g))) = []"
  by (simp add: init_succeeds released_def List.map_filter_simps)

text \<open>
  C6 holds for the seven tested calls and fails on the code for the eighth step. When
  everything has succeeded and \<open>dev_open\<close> returns \<open>-ENODEV\<close>, a startup step has failed,
  yet the function logs success and returns 0: the bridge structure stays in the global,
  and the interface, its registration, the socket and both threads are acquired and
  none of them is given back.
\<close>

theorem init_dev_open_failure_not_unwound:
  "dev_open_ret env_open_fails = - ENODEV \<and>
   checked_steps_ok env_open_fails \<and>
   \<not> init_steps_ok env_open_fails \<and>
   vsock_tap_bridge_init env_open_fails None =
     (0, Some bridge_up,
      [PrInfo Initializing, Kzalloc True, SkbQueueHeadInit RxQueue,
       SkbQueueHeadInit TxQueue, StoreRunning True, AllocNetdev True,
       RegisterNetdev 0, SockCreateKern 0, KernelConnect 0,
       KthreadRun RxWorker 4096, KthreadRun TxWorker 8192,
       RtnlLock, DevOpen (- ENODEV), RtnlUnlock, PrInfo Initialized]) \<and>
   acquired (snd (snd (vsock_tap_bridge_init env_open_fails None))) =
     [BridgeMem, NetdevMem, NetdevReg, VsockSocket, Thread 4096, Thread 8192] \<and>
   released (snd (snd (vsock_tap_bridge_init env_open_fails None))) = []"
  by (simp add: vsock_tap_bridge_init_def env_open_fails_def env_ok_def ENODEV_def
      IS_ERR_def Let_def init_steps_ok_def checked_steps_ok_def kzalloc_bridge_def
      bridge_up_def dev0_def acquired_def released_def List.map_filter_simps)

section \<open>Properties of vsock_tap_bridge_exit\<close>

lemma exit_absent: "vsock_tap_bridge_exit None = (None, [PrInfo CleaningUp])"
  by (simp add: vsock_tap_bridge_exit_def)

lemma exit_releases_bridge: "fst (vsock_tap_bridge_exit g) = None"
  by (simp add: vsock_tap_bridge_exit_def split: option.split)

lemma exit_complete:
  "tx_thread br \<noteq> 0 \<Longrightarrow> rx_thread br \<noteq> 0 \<Longrightarrow> vsock_sock br = Some s \<Longrightarrow>
   tap_dev br = Some d \<Longrightarrow>
   vsock_tap_bridge_exit (Some br) =
     (None,
      [PrInfo CleaningUp, StoreRunning False, KthreadStop (tx_thread br),
       KthreadStop (rx_thread br), SockRelease, RtnlLock, DevClose, RtnlUnlock,
       UnregisterNetdev, FreeNetdev, SkbQueuePurge RxQueue (rx_queue br),
       SkbQueuePurge TxQueue (tx_queue br), Kfree, PrInfo CleanupComplete])"
  by (simp add: vsock_tap_bridge_exit_def)

lemma exit_stages_sorted: "sorted (stages (snd (vsock_tap_bridge_exit g)))"
  by (simp add: vsock_tap_bridge_exit_def stages_def List.map_filter_simps
      split: option.split)

lemma exit_stops_before_release:
  "list_all (\<lambda>e. shutdown_stage e \<noteq> Some 1)
     (dropWhile (\<lambda>e. e \<noteq> SockRelease) (snd (vsock_tap_bridge_exit g)))"
  by (simp add: vsock_tap_bridge_exit_def split: option.split)

lemma exit_store_first:
  "\<exists>rest. snd (vsock_tap_bridge_exit (Some br)) =
      PrInfo CleaningUp # StoreRunning False # rest \<and> \<not> list_ex is_store_running rest"
  by (simp add: vsock_tap_bridge_exit_def split: option.split)

text \<open>
  C8. After cleanup the global \<open>bridge\<close> is NULL, and cleanup on a NULL bridge logs
  its first message and returns: it makes no other call, so it gives back no resource.
\<close>

theorem exit_idempotent:
  "fst (vsock_tap_bridge_exit g) = None \<and>
   vsock_tap_bridge_exit (fst (vsock_tap_bridge_exit g)) = (None, [PrInfo CleaningUp]) \<and>
   released (snd (vsock_tap_bridge_exit (fst (vsock_tap_bridge_exit g)))) = []"
  by (simp add: exit_releases_bridge exit_absent released_def List.map_filter_simps)

theorem exit_idempotent_witness:
  "vsock_tap_bridge_exit (fst (vsock_tap_bridge_exit (Some bridge_up))) =
     (None, [PrInfo CleaningUp])"
  using exit_idempotent [of "Some bridge_up"] by blast

text \<open>
  C4, as the code has it. In every state the calls of cleanup come in the order of the
  stages: the flag is cleared first, then the workers are stopped, then the socket is
  released, then the interface is closed, unregistered and freed, then the queues are
  purged, then the structure is freed. No \<open>kthread_stop\<close> follows the release of the
  socket: the transport is closed after the workers have been waited for, not before.
  With every handle present the trace is the full sequence.
\<close>

theorem exit_order:
  "sorted (stages (snd (vsock_tap_bridge_exit g))) \<and>
   list_all (\<lambda>e. shutdown_stage e \<noteq> Some 1)
     (dropWhile (\<lambda>e. e \<noteq> SockRelease) (snd (vsock_tap_bridge_exit g))) \<and>
   (\<forall>br. g = Some br \<longrightarrow>
      (\<exists>rest. snd (vsock_tap_bridge_exit g) =
         PrInfo CleaningUp # StoreRunning False # rest)) \<and>
   (\<forall>br s d. g = Some br \<and> tx_thread br \<noteq> 0 \<and> rx_thread br \<noteq> 0 \<and>
       vsock_sock br = Some s \<and> tap_dev br = Some d \<longrightarrow>
      snd (vsock_tap_bridge_exit g) =
        [PrInfo CleaningUp, StoreRunning False, KthreadStop (tx_thread br),
         KthreadStop (rx_thread br), SockRelease, RtnlLock, DevClose, RtnlUnlock,
         UnregisterNetdev, FreeNetdev, SkbQueuePurge RxQueue (rx_queue br),
         SkbQueuePurge TxQueue (tx_queue br), Kfree, PrInfo CleanupComplete])"
proof (intro conjI allI impI)
  show "sorted (stages (snd (vsock_tap_bridge_exit g)))"
    by (rule exit_stages_sorted)
next
  show "list_all (\<lambda>e. shutdown_stage e \<noteq> Some 1)
     (dropWhile (\<lambda>e. e \<noteq> SockRelease) (snd (vsock_tap_bridge_exit g)))"
    by (rule exit_stops_before_release)
next
  fix br
  assume "g = Some br"
  then show "\<exists>rest. snd (vsock_tap_bridge_exit g) =
         PrInfo CleaningUp # StoreRunning False # rest"
    using exit_store_first [of br] by blast
next
  fix br s d
  assume "g = Some br \<and> tx_thread br \<noteq> 0 \<and> rx_thread br \<noteq> 0 \<and>
       vsock_sock br = Some s \<and> tap_dev br = Some d"
  then show "snd (vsock_tap_bridge_exit g) =
        [PrInfo CleaningUp, StoreRunning False, KthreadStop (tx_thread br),
         KthreadStop (rx_thread br), SockRelease, RtnlLock, DevClose, RtnlUnlock,
         UnregisterNetdev, FreeNetdev, SkbQueuePurge RxQueue (rx_queue br),
         SkbQueuePurge TxQueue (tx_queue br), Kfree, PrInfo CleanupComplete]"
    by (simp add: exit_complete)
qed

theorem exit_order_witness:
  "snd (vsock_tap_bridge_exit (Some bridge_up)) =
     [PrInfo CleaningUp, StoreRunning False, KthreadStop 8192, KthreadStop 4096,
      SockRelease, RtnlLock, DevClose, RtnlUnlock, UnregisterNetdev, FreeNetdev,
      SkbQueuePurge RxQueue [], SkbQueuePurge TxQueue [], Kfree,
      PrInfo CleanupComplete] \<and>
   stages (snd (vsock_tap_bridge_exit (Some bridge_up))) = [0, 1, 1, 2, 3, 3, 3, 4, 4, 5]"
  using exit_order [of "Some bridge_up"]
  by (simp add: bridge_up_def vsock_tap_bridge_exit_def stages_def List.map_filter_simps)

text \<open>
  C4 as stated fails in its last part: on a running bridge the release of the socket
  does not come before the wait for the RX thread, it comes after it.
\<close>

theorem exit_closes_socket_after_stop_counterexample:
  "\<not> precedes SockRelease (KthreadStop (rx_thread bridge_up))
       (snd (vsock_tap_bridge_exit (Some bridge_up))) \<and>
   precedes (KthreadStop (rx_thread bridge_up)) SockRelease
       (snd (vsock_tap_bridge_exit (Some bridge_up)))"
  by (simp add: precedes_def bridge_up_def vsock_tap_bridge_exit_def)

section \<open>Properties of the workers\<close>

lemma rx_body_again:
  "recv_len s = - EAGAIN \<Longrightarrow> rx_body s br = Inr (Continue, br, [KernelRecvmsg (- EAGAIN)])"
  by (simp add: rx_body_def EAGAIN_def)

lemma rx_body_break:
  "recv_len s \<le> 0 \<Longrightarrow> recv_len s \<noteq> - EAGAIN \<Longrightarrow>
   rx_body s br =
     Inr (Break, br, [KernelRecvmsg (recv_len s), PrErr (RecvmsgError (recv_len s))])"
  by (simp add: rx_body_def Let_def)

lemma rx_body_no_memory:
  "0 < recv_len s \<Longrightarrow> \<not> alloc_ok s \<Longrightarrow>
   rx_body s br =
     Inr (Continue, br,
          [KernelRecvmsg (recv_len s), DevAllocSkb (recv_len s + 2) False,
           PrErr AllocSkbFailed])"
  by (simp add: rx_body_def Let_def)

lemma rx_loop_continue:
  "\<not> rx_should_stop s \<Longrightarrow> running br \<Longrightarrow> rx_body s br = Inr (Continue, br', ev) \<Longrightarrow>
   rx_loop (s # ss) br =
     (case rx_loop ss br' of Inl f \<Rightarrow> Inl f | Inr (b, tr) \<Rightarrow> Inr (b, ev @ tr))"
  by simp

lemma rx_loop_break:
  "\<not> rx_should_stop s \<Longrightarrow> running br \<Longrightarrow> rx_body s br = Inr (Break, br', ev) \<Longrightarrow>
   rx_loop (s # ss) br = Inr (br', ev)"
  by simp

lemma rx_body_running:
  "rx_body s br = Inr (c, br', ev) \<Longrightarrow>
   running br' = running br \<and> \<not> list_ex is_store_running ev"
  by (auto simp: rx_body_def Let_def split: if_splits option.splits)

lemma rx_loop_running:
  "rx_loop ss br = Inr (br', tr) \<Longrightarrow>
   running br' = running br \<and> \<not> list_ex is_store_running tr"
proof (induction ss arbitrary: br br' tr)
  case Nil
  then show ?case by simp
next
  case (Cons s ss)
  show ?case
  proof (cases "\<not> rx_should_stop s \<and> running br")
    case False
    with Cons.prems show ?thesis by auto
  next
    case True
    show ?thesis
    proof (cases "rx_body s br")
      case (Inl f)
      with True Cons.prems show ?thesis by simp
    next
      case (Inr r)
      obtain c br1 ev where r: "r = (c, br1, ev)"
        by (cases r) auto
      note body = rx_body_running [OF Inr [unfolded r]]
      show ?thesis
      proof (cases c)
        case Break
        with True Inr r Cons.prems body show ?thesis by auto
      next
        case Continue
        with True Inr r Cons.prems obtain tr1 where
          rest: "rx_loop ss br1 = Inr (br', tr1)" and tr: "tr = ev @ tr1"
          by (auto split: sum.splits)
        from Cons.IH [OF rest] body tr show ?thesis by simp
      qed
    qed
  qed
qed

lemma rx_thread_running:
  assumes "vsock_rx_thread ss br = Inr (r, br', tr)"
  shows "running br' = running br \<and> \<not> list_ex is_store_running tr"
proof -
  from assms obtain tr1 where
    loop: "rx_loop ss br = Inr (br', tr1)" and
    tr: "tr = [PrInfo RxStarted] @ tr1 @ [PrInfo RxStopped]"
    by (auto simp: vsock_rx_thread_def split: sum.splits)
  from rx_loop_running [OF loop] tr show ?thesis by simp
qed

lemma tx_body_error:
  "tx_queue br = skb # rest \<Longrightarrow> sendmsg_ret s < 0 \<Longrightarrow>
   tx_body s br =
     Inr (Continue, br\<lparr>tx_queue := rest\<rparr>,
          [SkbDequeue TxQueue (Some skb), KernelSendmsg skb (sendmsg_ret s),
           PrErr (SendmsgError (sendmsg_ret s)), DevKfreeSkb skb])"
  by (simp add: tx_body_def Let_def)

lemma tx_body_sent:
  "tx_queue br = skb # rest \<Longrightarrow> 0 \<le> sendmsg_ret s \<Longrightarrow> tap_dev br = Some d \<Longrightarrow>
   tx_body s br =
     Inr (Continue,
          br\<lparr>tx_queue := rest,
             tap_dev := Some (d\<lparr>stats := (stats d)
               \<lparr>tx_packets := tx_packets (stats d) + 1,
                tx_bytes := tx_bytes (stats d) + word_of_int (sendmsg_ret s)\<rparr>\<rparr>)\<rparr>,
          [SkbDequeue TxQueue (Some skb), KernelSendmsg skb (sendmsg_ret s),
           DevKfreeSkb skb])"
  by (simp add: tx_body_def Let_def)

lemma tx_loop_continue:
  "\<not> tx_should_stop s \<Longrightarrow> running br \<Longrightarrow> tx_body s br = Inr (Continue, br', ev) \<Longrightarrow>
   tx_loop (s # ss) br =
     (case tx_loop ss br' of Inl f \<Rightarrow> Inl f | Inr (b, tr) \<Rightarrow> Inr (b, ev @ tr))"
  by simp

lemma tx_body_running:
  "tx_body s br = Inr (c, br', ev) \<Longrightarrow>
   c = Continue \<and> running br' = running br \<and> \<not> list_ex is_store_running ev"
  by (auto simp: tx_body_def Let_def split: if_splits option.splits list.splits)

lemma tx_loop_running:
  "tx_loop ss br = Inr (br', tr) \<Longrightarrow>
   running br' = running br \<and> \<not> list_ex is_store_running tr"
proof (induction ss arbitrary: br br' tr)
  case Nil
  then show ?case by simp
next
  case (Cons s ss)
  show ?case
  proof (cases "\<not> tx_should_stop s \<and> running br")
    case False
    with Cons.prems show ?thesis by auto
  next
    case True
    show ?thesis
    proof (cases "tx_body s br")
      case (Inl f)
      with True Cons.prems show ?thesis by simp
    next
      case (Inr r)
      obtain c br1 ev where r: "r = (c, br1, ev)"
        by (cases r) auto
      note body = tx_body_running [OF Inr [unfolded r]]
      with True Inr r Cons.prems obtain tr1 where
        rest: "tx_loop ss br1 = Inr (br', tr1)" and tr: "tr = ev @ tr1"
        by (auto split: sum.splits)
      from Cons.IH [OF rest] body tr show ?thesis by simp
    qed
  qed
qed

lemma tx_thread_running:
  assumes "vsock_tx_thread ss br = Inr (r, br', tr)"
  shows "running br' = running br \<and> \<not> list_ex is_store_running tr"
proof -
  from assms obtain tr1 where
    loop: "tx_loop ss br = Inr (br', tr1)" and
    tr: "tr = [PrInfo TxStarted] @ tr1 @ [PrInfo TxStopped]"
    by (auto simp: vsock_tx_thread_def split: sum.splits)
  from tx_loop_running [OF loop] tr show ?thesis by simp
qed

text \<open>
  C2, as the code has it. Only a read that returns \<open>-EAGAIN\<close> is transient: nothing is
  logged, nothing changes, and the loop goes on with the next test of its condition. A
  read that returns zero bytes, or any other value below zero, \<open>-EINTR\<close> included, is
  logged as an error and ends the loop.
\<close>

theorem rx_nonpositive_read:
  "(recv_len s = - EAGAIN \<longrightarrow>
      rx_body s br = Inr (Continue, br, [KernelRecvmsg (- EAGAIN)]) \<and>
      (\<not> rx_should_stop s \<and> running br \<longrightarrow>
         rx_loop (s # ss) br =
           (case rx_loop ss br of
              Inl f \<Rightarrow> Inl f
            | Inr (b, tr) \<Rightarrow> Inr (b, [KernelRecvmsg (- EAGAIN)] @ tr)))) \<and>
   (recv_len s \<le> 0 \<and> recv_len s \<noteq> - EAGAIN \<longrightarrow>
      rx_body s br =
        Inr (Break, br, [KernelRecvmsg (recv_len s), PrErr (RecvmsgError (recv_len s))]) \<and>
      (\<not> rx_should_stop s \<and> running br \<longrightarrow>
         rx_loop (s # ss) br =
           Inr (br, [KernelRecvmsg (recv_len s), PrErr (RecvmsgError (recv_len s))])))"
  using rx_body_again [of s br] rx_body_break [of s br]
    rx_loop_continue [of s br br "[KernelRecvmsg (- EAGAIN)]" ss]
    rx_loop_break [of s br br
      "[KernelRecvmsg (recv_len s), PrErr (RecvmsgError (recv_len s))]" ss]
  by blast

theorem rx_nonpositive_read_witness:
  "recv_len rx_again = - EAGAIN \<and>
   vsock_rx_thread [rx_again, rx_frame, rx_stop] bridge_up =
     Inr (0, bridge_after_one,
          [PrInfo RxStarted, KernelRecvmsg (- 11), KernelRecvmsg 4, DevAllocSkb 6 True,
           NetifRx frame0, PrInfo RxStopped]) \<and>
   recv_len rx_interrupted = - EINTR \<and>
   rx_body rx_interrupted bridge_up =
     Inr (Break, bridge_up, [KernelRecvmsg (- 4), PrErr (RecvmsgError (- 4))])"
  using rx_nonpositive_read [of rx_again bridge_up "[rx_frame, rx_stop]"]
    rx_nonpositive_read [of rx_interrupted bridge_up "[]"]
  by (simp add: EAGAIN_def EINTR_def vsock_rx_thread_def rx_body_def rx_steps
      example_states)

text \<open>
  C2 as stated fails: after a read of zero bytes, and after an interrupted read, the RX
  thread logs an error and returns, although the script holds a frame for the next
  iteration.
\<close>

theorem rx_zero_read_ends_loop_counterexample:
  "vsock_rx_thread [rx_zero_read, rx_frame, rx_stop] bridge_up =
     Inr (0, bridge_up,
          [PrInfo RxStarted, KernelRecvmsg 0, PrErr (RecvmsgError 0), PrInfo RxStopped]) \<and>
   vsock_rx_thread [rx_interrupted, rx_frame, rx_stop] bridge_up =
     Inr (0, bridge_up,
          [PrInfo RxStarted, KernelRecvmsg (- EINTR), PrErr (RecvmsgError (- EINTR)),
           PrInfo RxStopped])"
  by (simp add: EAGAIN_def EINTR_def vsock_rx_thread_def rx_body_def rx_steps
      example_states)

text \<open>
  C3, as the code has it. When a read returns a value below zero other than \<open>-EAGAIN\<close>,
  the RX thread logs the error, leaves the loop whatever would follow, and returns 0 with
  the bridge structure as it was: the flag is still true and no call reaches the lifecycle
  or the TX thread.
\<close>

theorem rx_fatal_read_stops_worker_only:
  "recv_len s < 0 \<and> recv_len s \<noteq> - EAGAIN \<and> \<not> rx_should_stop s \<and> running br \<longrightarrow>
   vsock_rx_thread (s # ss) br =
     Inr (0, br,
          [PrInfo RxStarted, KernelRecvmsg (recv_len s), PrErr (RecvmsgError (recv_len s)),
           PrInfo RxStopped]) \<and>
   \<not> list_ex signals_lifecycle
       [PrInfo RxStarted, KernelRecvmsg (recv_len s), PrErr (RecvmsgError (recv_len s)),
        PrInfo RxStopped]"
proof
  assume a: "recv_len s < 0 \<and> recv_len s \<noteq> - EAGAIN \<and> \<not> rx_should_stop s \<and> running br"
  then have "rx_body s br =
      Inr (Break, br, [KernelRecvmsg (recv_len s), PrErr (RecvmsgError (recv_len s))])"
    by (intro rx_body_break) simp_all
  with a have "rx_loop (s # ss) br =
      Inr (br, [KernelRecvmsg (recv_len s), PrErr (RecvmsgError (recv_len s))])"
    by (intro rx_loop_break) simp_all
  then show "vsock_rx_thread (s # ss) br =
     Inr (0, br,
          [PrInfo RxStarted, KernelRecvmsg (recv_len s), PrErr (RecvmsgError (recv_len s)),
           PrInfo RxStopped]) \<and>
   \<not> list_ex signals_lifecycle
       [PrInfo RxStarted, KernelRecvmsg (recv_len s), PrErr (RecvmsgError (recv_len s)),
        PrInfo RxStopped]"
    by (simp add: vsock_rx_thread_def)
qed

theorem rx_fatal_read_stops_worker_only_witness:
  "recv_len rx_reset = - ECONNRESET \<and> running bridge_up \<and>
   vsock_rx_thread [rx_reset, rx_frame, rx_stop] bridge_up =
     Inr (0, bridge_up,
          [PrInfo RxStarted, KernelRecvmsg (- 104), PrErr (RecvmsgError (- 104)),
           PrInfo RxStopped])"
  using rx_fatal_read_stops_worker_only [of rx_reset bridge_up "[rx_frame, rx_stop]"]
  by (simp add: EAGAIN_def ECONNRESET_def rx_steps example_states)

text \<open>
  C3 as stated fails: after a connection reset the RX thread returns 0, the flag is still
  true, its trace holds no store to the flag, no \<open>kthread_stop\<close> and no wake-up, and the
  TX thread started on the resulting state keeps polling until it is stopped from outside.
\<close>

theorem rx_fatal_read_no_signal_counterexample:
  "vsock_rx_thread [rx_reset] bridge_up =
     Inr (0, bridge_up,
          [PrInfo RxStarted, KernelRecvmsg (- 104), PrErr (RecvmsgError (- 104)),
           PrInfo RxStopped]) \<and>
   running bridge_up \<and>
   \<not> list_ex signals_lifecycle
       [PrInfo RxStarted, KernelRecvmsg (- 104), PrErr (RecvmsgError (- 104)),
        PrInfo RxStopped] \<and>
   vsock_tx_thread [tx_idle, tx_idle, tx_stop] bridge_up =
     Inr (0, bridge_up,
          [PrInfo TxStarted, SkbDequeue TxQueue None, ScheduleTimeout,
           SkbDequeue TxQueue None, ScheduleTimeout, PrInfo TxStopped])"
  by (simp add: EAGAIN_def vsock_rx_thread_def rx_body_def rx_steps example_states
      vsock_tx_thread_def tx_body_def tx_steps)

text \<open>
  C10. When a read returned a positive length and \<open>dev_alloc_skb\<close> fails, the body logs
  the failure and continues: no \<open>netif_rx\<close>, the bridge structure and so the RX counters
  unchanged, and the loop goes on with the next test of its condition.
\<close>

theorem rx_alloc_failure_not_fatal:
  "0 < recv_len s \<and> \<not> alloc_ok s \<longrightarrow>
   rx_body s br =
     Inr (Continue, br,
          [KernelRecvmsg (recv_len s), DevAllocSkb (recv_len s + 2) False,
           PrErr AllocSkbFailed]) \<and>
   (\<not> rx_should_stop s \<and> running br \<longrightarrow>
      rx_loop (s # ss) br =
        (case rx_loop ss br of
           Inl f \<Rightarrow> Inl f
         | Inr (b, tr) \<Rightarrow>
             Inr (b, [KernelRecvmsg (recv_len s), DevAllocSkb (recv_len s + 2) False,
                      PrErr AllocSkbFailed] @ tr)))"
  using rx_body_no_memory [of s br]
    rx_loop_continue [of s br br
      "[KernelRecvmsg (recv_len s), DevAllocSkb (recv_len s + 2) False,
        PrErr AllocSkbFailed]" ss]
  by blast

theorem rx_alloc_failure_not_fatal_witness:
  "0 < recv_len rx_no_memory \<and> \<not> alloc_ok rx_no_memory \<and>
   rx_body rx_no_memory bridge_up =
     Inr (Continue, bridge_up,
          [KernelRecvmsg 4, DevAllocSkb 6 False, PrErr AllocSkbFailed]) \<and>
   vsock_rx_thread [rx_no_memory, rx_frame, rx_stop] bridge_up =
     Inr (0, bridge_after_one,
          [PrInfo RxStarted, KernelRecvmsg 4, DevAllocSkb 6 False, PrErr AllocSkbFailed,
           KernelRecvmsg 4, DevAllocSkb 6 True, NetifRx frame0, PrInfo RxStopped])"
  using rx_alloc_failure_not_fatal [of rx_no_memory bridge_up "[rx_frame, rx_stop]"]
  by (simp add: vsock_rx_thread_def rx_body_def rx_steps example_states)

text \<open>
  C5, as the code has it. The body of the TX loop never leaves the loop. For a dequeued
  frame it calls \<open>kernel_sendmsg\<close> once. A result below zero is logged, the counters stay,
  the frame is released and the loop goes on with the rest of the queue. Any other
  result, short of the frame length or not, counts one packet and that many bytes, and
  the frame is released.
\<close>

theorem tx_one_write_per_frame:
  "(\<forall>c br' ev. tx_body s br = Inr (c, br', ev) \<longrightarrow> c = Continue) \<and>
   (tx_queue br = skb # rest \<and> sendmsg_ret s < 0 \<longrightarrow>
      tx_body s br =
        Inr (Continue, br\<lparr>tx_queue := rest\<rparr>,
             [SkbDequeue TxQueue (Some skb), KernelSendmsg skb (sendmsg_ret s),
              PrErr (SendmsgError (sendmsg_ret s)), DevKfreeSkb skb])) \<and>
   (tx_queue br = skb # rest \<and> sendmsg_ret s < 0 \<and> \<not> tx_should_stop s \<and> running br \<longrightarrow>
      tx_loop (s # ss) br =
        (case tx_loop ss (br\<lparr>tx_queue := rest\<rparr>) of
           Inl f \<Rightarrow> Inl f
         | Inr (b, tr) \<Rightarrow>
             Inr (b, [SkbDequeue TxQueue (Some skb), KernelSendmsg skb (sendmsg_ret s),
                      PrErr (SendmsgError (sendmsg_ret s)), DevKfreeSkb skb] @ tr))) \<and>
   (tx_queue br = skb # rest \<and> 0 \<le> sendmsg_ret s \<and> tap_dev br = Some d \<longrightarrow>
      tx_body s br =
        Inr (Continue,
             br\<lparr>tx_queue := rest,
                tap_dev := Some (d\<lparr>stats := (stats d)
                  \<lparr>tx_packets := tx_packets (stats d) + 1,
                   tx_bytes := tx_bytes (stats d) + word_of_int (sendmsg_ret s)\<rparr>\<rparr>)\<rparr>,
             [SkbDequeue TxQueue (Some skb), KernelSendmsg skb (sendmsg_ret s),
              DevKfreeSkb skb]))"
  using tx_body_running [of s br] tx_body_error [of br skb rest s]
    tx_body_sent [of br skb rest s d]
    tx_loop_continue [of s br "br\<lparr>tx_queue := rest\<rparr>"
      "[SkbDequeue TxQueue (Some skb), KernelSendmsg skb (sendmsg_ret s),
        PrErr (SendmsgError (sendmsg_ret s)), DevKfreeSkb skb]" ss]
  by blast

theorem tx_one_write_per_frame_witness:
  "tx_queue (bridge_up\<lparr>tx_queue := [frame0, frame1]\<rparr>) = frame0 # [frame1] \<and>
   sendmsg_ret tx_broken_pipe < 0 \<and>
   tx_body tx_broken_pipe (bridge_up\<lparr>tx_queue := [frame0, frame1]\<rparr>) =
     Inr (Continue, bridge_up\<lparr>tx_queue := [frame1]\<rparr>,
          [SkbDequeue TxQueue (Some frame0), KernelSendmsg frame0 (- 32),
           PrErr (SendmsgError (- 32)), DevKfreeSkb frame0]) \<and>
   tx_body tx_short_write (bridge_up\<lparr>tx_queue := [frame1]\<rparr>) =
     Inr (Continue,
          bridge_up\<lparr>tap_dev := Some \<lparr>stats = zero_stats\<lparr>tx_packets := 1, tx_bytes := 1\<rparr>\<rparr>\<rparr>,
          [SkbDequeue TxQueue (Some frame1), KernelSendmsg frame1 1, DevKfreeSkb frame1])"
  using tx_one_write_per_frame [where s = tx_broken_pipe
      and br = "bridge_up\<lparr>tx_queue := [frame0, frame1]\<rparr>" and skb = frame0
      and rest = "[frame1]" and d = dev0]
    tx_one_write_per_frame [where s = tx_short_write
      and br = "bridge_up\<lparr>tx_queue := [frame1]\<rparr>" and skb = frame1
      and rest = "[]" and d = dev0]
  by (simp add: tx_body_def tx_steps example_states)

text \<open>
  C5 as stated fails: after \<open>-EPIPE\<close> on the first frame the TX thread goes on and sends
  the second, and for the second frame, two bytes long, a write of one byte is the only
  write.
\<close>

theorem tx_write_error_continues_counterexample:
  "vsock_tx_thread [tx_broken_pipe, tx_short_write, tx_stop]
     (bridge_up\<lparr>tx_queue := [frame0, frame1]\<rparr>) =
     Inr (0,
          bridge_up\<lparr>tap_dev := Some \<lparr>stats = zero_stats\<lparr>tx_packets := 1, tx_bytes := 1\<rparr>\<rparr>\<rparr>,
          [PrInfo TxStarted,
           SkbDequeue TxQueue (Some frame0), KernelSendmsg frame0 (- EPIPE),
           PrErr (SendmsgError (- EPIPE)), DevKfreeSkb frame0,
           SkbDequeue TxQueue (Some frame1), KernelSendmsg frame1 1, DevKfreeSkb frame1,
           PrInfo TxStopped]) \<and>
   skb_len frame1 = 2"
  by (simp add: vsock_tx_thread_def tx_body_def tx_steps example_states EPIPE_def
      skb_len_def)

section \<open>The running flag\<close>

lemma init_store_running:
  "kzalloc_ok env \<Longrightarrow>
   \<exists>rest. snd (snd (vsock_tap_bridge_init env g)) =
      [PrInfo Initializing, Kzalloc True, SkbQueueHeadInit RxQueue,
       SkbQueueHeadInit TxQueue, StoreRunning True] @ rest \<and>
      \<not> list_ex is_store_running rest"
proof (cases env rule: init_cases)
  case kzalloc
  moreover assume "kzalloc_ok env"
  ultimately show ?thesis by simp
next
  case alloc_netdev
  then show ?thesis by (simp add: init_alloc_netdev_fails)
next
  case register
  then show ?thesis by (simp add: init_register_fails)
next
  case sock_create
  then show ?thesis by (simp add: init_sock_create_fails)
next
  case connect
  then show ?thesis by (simp add: init_connect_fails)
next
  case rx_thread
  then show ?thesis by (simp add: init_rx_thread_fails)
next
  case tx_thread
  then show ?thesis by (simp add: init_tx_thread_fails)
next
  case ok
  then show ?thesis by (simp add: init_succeeds)
qed

text \<open>
  C1, as the code has it. Initialisation stores true into the flag once, right after the
  structure is allocated and its queues are initialised, before the interface is created
  and before the transport is connected. Cleanup of a present bridge stores false once,
  after its first log message and before every other call. A worker that returns leaves
  the flag as it found it and has made no store to it.
\<close>

theorem running_flag_discipline:
  "(kzalloc_ok env \<longrightarrow>
      (\<exists>rest. snd (snd (vsock_tap_bridge_init env g)) =
         [PrInfo Initializing, Kzalloc True, SkbQueueHeadInit RxQueue,
          SkbQueueHeadInit TxQueue, StoreRunning True] @ rest \<and>
         \<not> list_ex is_store_running rest)) \<and>
   (\<exists>rest. snd (vsock_tap_bridge_exit (Some br)) =
      PrInfo CleaningUp # StoreRunning False # rest \<and> \<not> list_ex is_store_running rest) \<and>
   (\<forall>r br' tr. vsock_rx_thread rxs br = Inr (r, br', tr) \<longrightarrow>
      running br' = running br \<and> \<not> list_ex is_store_running tr) \<and>
   (\<forall>r br' tr. vsock_tx_thread txs br = Inr (r, br', tr) \<longrightarrow>
      running br' = running br \<and> \<not> list_ex is_store_running tr)"
  using init_store_running [of env g] exit_store_first [of br]
    rx_thread_running [of rxs br] tx_thread_running [of txs br]
  by blast

theorem running_flag_discipline_witness:
  "kzalloc_ok env_ok \<and>
   snd (snd (vsock_tap_bridge_init env_ok None)) =
     [PrInfo Initializing, Kzalloc True, SkbQueueHeadInit RxQueue,
      SkbQueueHeadInit TxQueue, StoreRunning True] @
     [AllocNetdev True, RegisterNetdev 0, SockCreateKern 0, KernelConnect 0,
      KthreadRun RxWorker 4096, KthreadRun TxWorker 8192, RtnlLock, DevOpen 0,
      RtnlUnlock, PrInfo Initialized] \<and>
   vsock_rx_thread [rx_frame, rx_stop] bridge_up =
     Inr (0, bridge_after_one,
          [PrInfo RxStarted, KernelRecvmsg 4, DevAllocSkb 6 True, NetifRx frame0,
           PrInfo RxStopped]) \<and>
   running bridge_after_one = running bridge_up \<and>
   vsock_tx_thread [tx_idle, tx_stop] bridge_up =
     Inr (0, bridge_up,
          [PrInfo TxStarted, SkbDequeue TxQueue None, ScheduleTimeout, PrInfo TxStopped])"
  using running_flag_discipline [of env_ok None bridge_up "[rx_frame, rx_stop]"
      "[tx_idle, tx_stop]"]
  by (simp add: vsock_tap_bridge_init_def env_ok_def IS_ERR_def Let_def
      vsock_rx_thread_def rx_body_def rx_frame_def rx_stop_def bridge_up_def
      bridge_after_one_def dev0_def zero_stats_def frame0_def
      vsock_tx_thread_def tx_body_def tx_idle_def tx_stop_def kzalloc_bridge_def)

text \<open>
  C1 as stated fails in its first part: in a successful initialisation the store of true
  comes before \<open>kernel_connect\<close>.
\<close>

theorem running_set_before_connect_counterexample:
  "\<not> connect_before_store False (snd (snd (vsock_tap_bridge_init env_ok None)))"
  by (simp add: vsock_tap_bridge_init_def env_ok_def IS_ERR_def Let_def)

end
